theory Spec2Isabelle
  imports Main
begin

section \<open>Values, errors and backends\<close>

text \<open>
  The router of \<^verbatim>\<open>src/Resolution.ts\<close> is modelled as pure functions over
  an immutable instance record. A promise is modelled by its outcome: \<open>Inl e\<close> when it
  rejects with \<open>e\<close> (a \<^verbatim>\<open>throw\<close> inside an \<^verbatim>\<open>async\<close> method), \<open>Inr v\<close>
  when it fulfils with \<open>v\<close>. A synchronous method that can throw has the same shape.

  Strings are \<open>char list\<close>. A \<open>char\<close> has eight bits and is read as the code point
  of the same number (U+0000 to U+00FF), so the model covers domain strings over that
  range; \<^verbatim>\<open>trim\<close> and \<^verbatim>\<open>toLowerCase\<close> below are the ECMAScript built-ins
  restricted to it.
\<close>

text \<open>
  Untyped JavaScript values, as far as the router inspects them (\<^verbatim>\<open>typeof\<close>,
  truthiness, property reads, object spread). An object is the map of its own enumerable
  string-keyed properties.
\<close>

datatype jsval =
    Undefined
  | Null
  | Boolean bool
  | Number int
  | BigInt int
  | String string
  | Symbol nat
  | Function nat
  | Object "string \<Rightarrow> jsval option"

fun typeof :: "jsval \<Rightarrow> string" where
  "typeof Undefined = ''undefined''"
| "typeof Null = ''object''"
| "typeof (Boolean b) = ''boolean''"
| "typeof (Number n) = ''number''"
| "typeof (BigInt n) = ''bigint''"
| "typeof (String s) = ''string''"
| "typeof (Symbol n) = ''symbol''"
| "typeof (Function n) = ''function''"
| "typeof (Object m) = ''object''"

text \<open>Truthiness, as tested by \<^verbatim>\<open>if (v)\<close>, \<^verbatim>\<open>!v\<close> and \<^verbatim>\<open>v || w\<close>.\<close>

fun truthy :: "jsval \<Rightarrow> bool" where
  "truthy Undefined = False"
| "truthy Null = False"
| "truthy (Boolean b) = b"
| "truthy (Number n) = (n \<noteq> 0)"
| "truthy (BigInt n) = (n \<noteq> 0)"
| "truthy (String s) = (s \<noteq> [])"
| "truthy (Symbol n) = True"
| "truthy (Function n) = True"
| "truthy (Object m) = True"

text \<open>
  The properties copied by an object spread \<^verbatim>\<open>{...v}\<close>: the own enumerable
  properties of an object, none for \<^verbatim>\<open>null\<close>. (The spread is only reached for
  values whose \<^verbatim>\<open>typeof\<close> is \<^verbatim>\<open>'object'\<close>.)
\<close>

fun spread :: "jsval \<Rightarrow> (string \<Rightarrow> jsval option)" where
  "spread (Object m) = m"
| "spread v = Map.empty"

text \<open>
  Errors that can be thrown. \<open>ResolutionError\<close> is the class of
  \<^verbatim>\<open>./errors/resolutionError\<close>, carrying its code and the detail the router passes
  (the domain or the method name); \<open>JsError\<close> stands for every other thrown value,
  such as \<^verbatim>\<open>new Error('Unsupported configuration')\<close> or a \<^verbatim>\<open>TypeError\<close>.
\<close>

datatype ResolutionErrorCode =
    UnsupportedDomain
  | NamingServiceDown
  | RecordNotFound
  | BackendCode string

datatype js_error =
    ResolutionError ResolutionErrorCode string
  | JsError string

text \<open>\<^verbatim>\<open>error instanceof ResolutionError\<close>\<close>

fun instanceof_ResolutionError :: "js_error \<Rightarrow> bool" where
  "instanceof_ResolutionError (ResolutionError c d) = True"
| "instanceof_ResolutionError (JsError m) = False"

datatype NamingServiceName = ENS | CNS | ZNS

text \<open>The identity tag of a backend: a \<open>NamingServiceName\<close>, or the tag of the API client.\<close>

datatype ResolutionMethod = Named NamingServiceName | UDAPI

text \<open>
  The capability contract \<^verbatim>\<open>NamingService\<close> that the router consumes. The backends
  themselves are outside the router; a backend is a record of its operations. The
  operations declared synchronous return a value, the asynchronous ones an outcome.
\<close>

record NamingService =
  ns_name :: ResolutionMethod
  ns_isSupportedDomain :: "string \<Rightarrow> bool"
  ns_isSupportedNetwork :: bool
  ns_resolve :: "string \<Rightarrow> js_error + jsval"
  ns_address :: "string \<Rightarrow> string \<Rightarrow> js_error + string"
  ns_owner :: "string \<Rightarrow> js_error + jsval"
  ns_resolver :: "string \<Rightarrow> js_error + string"
  ns_record :: "string \<Rightarrow> string \<Rightarrow> js_error + string"
  ns_getAllKeys :: "string \<Rightarrow> js_error + jsval"
  ns_chatId :: "string \<Rightarrow> js_error + string"
  ns_chatpk :: "string \<Rightarrow> js_error + string"
  ns_ipfsHash :: "string \<Rightarrow> js_error + string"
  ns_httpUrl :: "string \<Rightarrow> js_error + string"
  ns_email :: "string \<Rightarrow> js_error + string"
  ns_namehash :: "string \<Rightarrow> string"
  ns_childhash :: "string \<Rightarrow> string \<Rightarrow> string"
  ns_serviceName :: "string \<Rightarrow> ResolutionMethod"
  ns_reverse :: "string \<Rightarrow> string \<Rightarrow> js_error + jsval"

section \<open>Domain canonicalization\<close>

text \<open>
  \<^verbatim>\<open>String.prototype.trim\<close> strips WhiteSpace and LineTerminator code points from
  both ends. Below U+0100 these are TAB, LF, VT, FF, CR, SPACE and NO-BREAK SPACE.
\<close>

definition isWhiteSpace :: "char \<Rightarrow> bool" where
  "isWhiteSpace c = ((of_char c :: nat) \<in> {9, 10, 11, 12, 13, 32, 160})"

definition trim :: "string \<Rightarrow> string" where
  "trim s = rev (dropWhile isWhiteSpace (rev (dropWhile isWhiteSpace s)))"

text \<open>
  \<^verbatim>\<open>String.prototype.toLowerCase\<close> below U+0100: A to Z, and the Latin-1 capitals
  U+00C0 to U+00DE except the multiplication sign U+00D7, move up by 32; every other
  code point is unchanged.
\<close>

definition lowerChar :: "char \<Rightarrow> char" where
  "lowerChar c =
     (let n = (of_char c :: nat)
      in if (65 \<le> n \<and> n \<le> 90) \<or> (192 \<le> n \<and> n \<le> 222 \<and> n \<noteq> 215)
         then char_of (n + 32) else c)"

definition toLowerCase :: "string \<Rightarrow> string" where
  "toLowerCase s = map lowerChar s"

text \<open>
  \<^verbatim>\<open>return domain ? domain.trim().toLowerCase() : '';\<close>
  The only falsy string is the empty one.
\<close>

definition prepareDomain :: "string \<Rightarrow> string" where
  "prepareDomain domain = (if domain \<noteq> [] then toLowerCase (trim domain) else [])"

section \<open>Source normalizer\<close>

text \<open>
  \<^verbatim>\<open>normalizeSource(source, provider?)\<close>: a \<^verbatim>\<open>switch\<close> on
  \<^verbatim>\<open>typeof source\<close> whose cases all return, followed by the \<^verbatim>\<open>throw\<close>.
  An omitted \<open>provider\<close> argument is \<open>Undefined\<close>. The object literal
  \<^verbatim>\<open>{provider}\<close> has the key \<open>provider\<close> also when the value is undefined;
  \<^verbatim>\<open>{provider, ...source}\<close> then copies the properties of \<open>source\<close> over it.
\<close>

definition normalizeSource :: "jsval \<Rightarrow> jsval \<Rightarrow> js_error + jsval" where
  "normalizeSource source provider =
     (let t = typeof source in
      if t = ''undefined'' then Inr (Object [''provider'' \<mapsto> provider])
      else if t = ''boolean'' then
        Inr (if truthy source then Object [''provider'' \<mapsto> provider] else Boolean False)
      else if t = ''string'' then Inr (Object [''url'' \<mapsto> source])
      else if t = ''object'' then Inr (Object ([''provider'' \<mapsto> provider] ++ spread source))
      else Inl (JsError ''Unsupported configuration''))"

section \<open>The router instance and its construction\<close>

record Resolution =
  blockchain :: bool
  ens :: "NamingService option"
  zns :: "NamingService option"
  cns :: "NamingService option"
  api :: "NamingService option"

text \<open>
  What the constructor imports from modules that are not part of the router: the bodies
  of the four backend constructors (each may throw) and the constant \<^verbatim>\<open>DefaultAPI\<close>.
  They are parameters of the model.
\<close>

record externals =
  Ens_body :: "jsval \<Rightarrow> js_error + NamingService"
  Zns_body :: "jsval \<Rightarrow> js_error + NamingService"
  Cns_body :: "jsval \<Rightarrow> js_error + NamingService"
  Udapi_body :: "jsval \<Rightarrow> js_error + NamingService"
  DefaultAPI :: jsval

text \<open>
  Modelled from the spec: the classes \<^verbatim>\<open>Ens\<close>, \<^verbatim>\<open>Zns\<close>, \<^verbatim>\<open>Cns\<close> and
  \<^verbatim>\<open>Udapi\<close> are imported by the router and their files are missing. Each backend
  carries a fixed name tag from a closed set; the model sets that tag on whatever the
  constructor body builds and leaves everything else to the body.
\<close>

definition tagged :: "ResolutionMethod \<Rightarrow> js_error + NamingService \<Rightarrow> js_error + NamingService" where
  "tagged n res = (case res of Inl e \<Rightarrow> Inl e | Inr s \<Rightarrow> Inr (s\<lparr>ns_name := n\<rparr>))"

definition new_Ens :: "externals \<Rightarrow> jsval \<Rightarrow> js_error + NamingService" where
  "new_Ens E source = tagged (Named ENS) (Ens_body E source)"

definition new_Zns :: "externals \<Rightarrow> jsval \<Rightarrow> js_error + NamingService" where
  "new_Zns E source = tagged (Named ZNS) (Zns_body E source)"

definition new_Cns :: "externals \<Rightarrow> jsval \<Rightarrow> js_error + NamingService" where
  "new_Cns E source = tagged (Named CNS) (Cns_body E source)"

definition new_Udapi :: "externals \<Rightarrow> jsval \<Rightarrow> js_error + NamingService" where
  "new_Udapi E source = tagged UDAPI (Udapi_body E source)"

text \<open>Sequencing of steps that may throw: the first error ends the computation.\<close>

definition andThen :: "js_error + 'a \<Rightarrow> ('a \<Rightarrow> js_error + 'b) \<Rightarrow> js_error + 'b" where
  "andThen m f = (case m of Inl e \<Rightarrow> Inl e | Inr v \<Rightarrow> f v)"

text \<open>
  A property read \<^verbatim>\<open>v.key\<close> for the option keys the constructor reads
  (\<open>web3Provider\<close>, \<open>ens\<close>, \<open>zns\<close>, \<open>cns\<close>). On \<^verbatim>\<open>null\<close> and
  \<^verbatim>\<open>undefined\<close> the read throws a TypeError; on an object it gives the property,
  or undefined when absent; the other values have no property of these names.
\<close>

fun getProp :: "jsval \<Rightarrow> string \<Rightarrow> js_error + jsval" where
  "getProp Undefined k = Inl (JsError ''TypeError'')"
| "getProp Null k = Inl (JsError ''TypeError'')"
| "getProp (Object m) k = Inr (case m k of None \<Rightarrow> Undefined | Some v \<Rightarrow> v)"
| "getProp v k = Inr Undefined"

text \<open>\<^verbatim>\<open>if (s) { this.f = new C(s); }\<close>: the field stays unset when \<open>s\<close> is falsy.\<close>

definition construct_if :: "jsval \<Rightarrow> (jsval \<Rightarrow> js_error + NamingService) \<Rightarrow> js_error + NamingService option" where
  "construct_if s new = (if truthy s then andThen (new s) (\<lambda>b. Inr (Some b)) else Inr None)"

text \<open>
  A destructuring default \<^verbatim>\<open>{name = dflt}\<close>: the default is taken exactly when the
  property is undefined (or the argument is omitted).
\<close>

definition with_default :: "jsval \<Rightarrow> jsval \<Rightarrow> jsval" where
  "with_default v dflt = (case v of Undefined \<Rightarrow> dflt | _ \<Rightarrow> v)"

text \<open>
  The constructor, on the two properties of its options argument, with the defaults
  \<^verbatim>\<open>blockchain = true\<close> and \<^verbatim>\<open>api = DefaultAPI\<close>. The three sources are
  normalized before any backend is built.
\<close>

definition constructor :: "externals \<Rightarrow> jsval \<Rightarrow> jsval \<Rightarrow> js_error + Resolution" where
  "constructor E blockchain_opt api_opt =
     (let blockchain0 = with_default blockchain_opt (Boolean True);
          api0 = with_default api_opt (DefaultAPI E)
      in if truthy blockchain0 then
           (let blockchain1 = (case blockchain0 of Boolean True \<Rightarrow> Object Map.empty | v \<Rightarrow> v)
            in andThen (getProp blockchain1 ''web3Provider'') (\<lambda>web3provider.
               andThen (getProp blockchain1 ''ens'') (\<lambda>ens_src.
               andThen (normalizeSource ens_src web3provider) (\<lambda>ens_n.
               andThen (getProp blockchain1 ''zns'') (\<lambda>zns_src.
               andThen (normalizeSource zns_src Undefined) (\<lambda>zns_n.
               andThen (getProp blockchain1 ''cns'') (\<lambda>cns_src.
               andThen (normalizeSource cns_src web3provider) (\<lambda>cns_n.
               andThen (construct_if ens_n (new_Ens E)) (\<lambda>e.
               andThen (construct_if zns_n (new_Zns E)) (\<lambda>z.
               andThen (construct_if cns_n (new_Cns E)) (\<lambda>c.
               Inr \<lparr>blockchain = True, ens = e, zns = z, cns = c, api = None\<rparr>)))))))))))
         else
           andThen (new_Udapi E api0) (\<lambda>a.
           Inr \<lparr>blockchain = False, ens = None, zns = None, cns = None, api = Some a\<rparr>))"

text \<open>The lines the constructor writes with \<^verbatim>\<open>console.warn\<close>.\<close>

definition constructor_warnings :: "jsval \<Rightarrow> string list" where
  "constructor_warnings blockchain_opt =
     (let blockchain0 = with_default blockchain_opt (Boolean True)
      in if truthy blockchain0 then
           (let blockchain1 = (case blockchain0 of Boolean True \<Rightarrow> Object Map.empty | v \<Rightarrow> v)
            in case getProp blockchain1 ''web3Provider'' of
                 Inl e \<Rightarrow> []
               | Inr web3provider \<Rightarrow>
                   if truthy web3provider
                   then [''Usage of `web3Provider` option is deprecated. Use `provider` option instead for each individual blockchain'']
                   else [])
         else [])"

section \<open>Backend selection\<close>

text \<open>\<^verbatim>\<open>.filter(v => v)\<close> on a list of optional backends: the unset fields drop out.\<close>

fun present :: "NamingService option list \<Rightarrow> NamingService list" where
  "present [] = []"
| "present (None # vs) = present vs"
| "present (Some m # vs) = m # present vs"

definition getResolutionMethods :: "Resolution \<Rightarrow> NamingService list" where
  "getResolutionMethods r =
     present (if blockchain r then [ens r, zns r, cns r] else [api r])"

definition getNamingMethod :: "Resolution \<Rightarrow> string \<Rightarrow> NamingService option" where
  "getNamingMethod r domain0 =
     (let domain = prepareDomain domain0
      in find (\<lambda>method. ns_isSupportedDomain method domain) (getResolutionMethods r))"

definition getNamingMethodOrThrow :: "Resolution \<Rightarrow> string \<Rightarrow> js_error + NamingService" where
  "getNamingMethodOrThrow r domain0 =
     (let domain = prepareDomain domain0
      in case getNamingMethod r domain of
           None \<Rightarrow> Inl (ResolutionError UnsupportedDomain domain)
         | Some method \<Rightarrow> Inr method)"

text \<open>The detail of a \<open>NamingServiceDown\<close> error is the name that was asked for.\<close>

fun name_string :: "NamingServiceName \<Rightarrow> string" where
  "name_string ENS = ''ENS''"
| "name_string CNS = ''CNS''"
| "name_string ZNS = ''ZNS''"

definition findNamingService :: "Resolution \<Rightarrow> NamingServiceName \<Rightarrow> js_error + NamingService" where
  "findNamingService r name =
     (case find (\<lambda>m. ns_name m = Named name) (getResolutionMethods r) of
        None \<Rightarrow> Inl (ResolutionError NamingServiceDown (name_string name))
      | Some service \<Rightarrow> Inr service)"

section \<open>Public operations\<close>

text \<open>
  \<^verbatim>\<open>UnclaimedDomainResponse\<close> is a constant of \<^verbatim>\<open>./types\<close>; \<open>resolve\<close> takes it
  as its first argument. \<^verbatim>\<open>result || UnclaimedDomainResponse\<close> keeps a truthy result.
\<close>

definition resolve :: "jsval \<Rightarrow> Resolution \<Rightarrow> string \<Rightarrow> js_error + jsval" where
  "resolve UnclaimedDomainResponse r domain0 =
     (let domain = prepareDomain domain0
      in andThen (getNamingMethodOrThrow r domain) (\<lambda>method.
         andThen (ns_resolve method domain) (\<lambda>result.
         Inr (if truthy result then result else UnclaimedDomainResponse))))"

definition addressOrThrow :: "Resolution \<Rightarrow> string \<Rightarrow> string \<Rightarrow> js_error + string" where
  "addressOrThrow r domain0 currencyTicker =
     (let domain = prepareDomain domain0
      in andThen (getNamingMethodOrThrow r domain) (\<lambda>method.
         ns_address method domain currencyTicker))"

text \<open>The result of \<open>address\<close> is a string or \<^verbatim>\<open>null\<close> (\<open>None\<close>).\<close>

definition address :: "Resolution \<Rightarrow> string \<Rightarrow> string \<Rightarrow> js_error + string option" where
  "address r domain0 currencyTicker =
     (let domain = prepareDomain domain0
      in case addressOrThrow r domain currencyTicker of
           Inr a \<Rightarrow> Inr (Some a)
         | Inl error \<Rightarrow> if instanceof_ResolutionError error then Inr None else Inl error)"

definition chatId :: "Resolution \<Rightarrow> string \<Rightarrow> js_error + string" where
  "chatId r domain0 =
     (let domain = prepareDomain domain0
      in andThen (getNamingMethodOrThrow r domain) (\<lambda>method. ns_chatId method domain))"

definition chatPk :: "Resolution \<Rightarrow> string \<Rightarrow> js_error + string" where
  "chatPk r domain0 =
     (let domain = prepareDomain domain0
      in andThen (getNamingMethodOrThrow r domain) (\<lambda>method. ns_chatpk method domain))"

definition ipfsHash :: "Resolution \<Rightarrow> string \<Rightarrow> js_error + string" where
  "ipfsHash r domain0 =
     (let domain = prepareDomain domain0
      in andThen (getNamingMethodOrThrow r domain) (\<lambda>method. ns_ipfsHash method domain))"

definition httpUrl :: "Resolution \<Rightarrow> string \<Rightarrow> js_error + string" where
  "httpUrl r domain0 =
     (let domain = prepareDomain domain0
      in andThen (getNamingMethodOrThrow r domain) (\<lambda>method. ns_httpUrl method domain))"

text \<open>
  \<open>ipfsRedirect\<close> has no \<^verbatim>\<open>domain = this.prepareDomain(domain)\<close> line: the backend is
  selected through \<open>getNamingMethodOrThrow\<close>, which canonicalizes its own copy, and is
  handed the domain as the caller wrote it.
\<close>

definition ipfsRedirect :: "Resolution \<Rightarrow> string \<Rightarrow> js_error + string" where
  "ipfsRedirect r domain =
     andThen (getNamingMethodOrThrow r domain) (\<lambda>method.
       ns_record method domain ''ipfs.redirect_domain.value'')"

definition ipfsRedirect_warnings :: "string list" where
  "ipfsRedirect_warnings =
     [''Resolution#ipfsRedirect is depricated since 1.0.15, use Resolution#httpUrl instead'']"

definition email :: "Resolution \<Rightarrow> string \<Rightarrow> js_error + string" where
  "email r domain0 =
     (let domain = prepareDomain domain0
      in andThen (getNamingMethodOrThrow r domain) (\<lambda>method. ns_email method domain))"

definition resolver :: "Resolution \<Rightarrow> string \<Rightarrow> js_error + string" where
  "resolver r domain0 =
     (let domain = prepareDomain domain0
      in andThen (getNamingMethodOrThrow r domain) (\<lambda>method. ns_resolver method domain))"

text \<open>\<^verbatim>\<open>(await method.owner(domain)) || null\<close>\<close>

definition owner :: "Resolution \<Rightarrow> string \<Rightarrow> js_error + jsval" where
  "owner r domain0 =
     (let domain = prepareDomain domain0
      in andThen (getNamingMethodOrThrow r domain) (\<lambda>method.
         andThen (ns_owner method domain) (\<lambda>result.
         Inr (if truthy result then result else Null))))"

text \<open>The method \<^verbatim>\<open>record\<close> of the router.\<close>

definition record_of :: "Resolution \<Rightarrow> string \<Rightarrow> string \<Rightarrow> js_error + string" where
  "record_of r domain0 recordKey =
     (let domain = prepareDomain domain0
      in andThen (getNamingMethodOrThrow r domain) (\<lambda>method. ns_record method domain recordKey))"

definition reverse :: "Resolution \<Rightarrow> string \<Rightarrow> string \<Rightarrow> js_error + jsval" where
  "reverse r addr currencyTicker =
     andThen (findNamingService r ENS) (\<lambda>service. ns_reverse service addr currencyTicker)"

definition namehash :: "Resolution \<Rightarrow> string \<Rightarrow> js_error + string" where
  "namehash r domain0 =
     (let domain = prepareDomain domain0
      in andThen (getNamingMethodOrThrow r domain) (\<lambda>method. Inr (ns_namehash method domain)))"

definition childhash :: "Resolution \<Rightarrow> string \<Rightarrow> string \<Rightarrow> NamingServiceName \<Rightarrow> js_error + string" where
  "childhash r parent label method =
     andThen (findNamingService r method) (\<lambda>service. Inr (ns_childhash service parent label))"

definition isValidHash :: "Resolution \<Rightarrow> string \<Rightarrow> string \<Rightarrow> js_error + bool" where
  "isValidHash r domain0 hash =
     (let domain = prepareDomain domain0
      in andThen (namehash r domain) (\<lambda>h. Inr (h = hash)))"

text \<open>\<^verbatim>\<open>!!this.getNamingMethod(domain)\<close>: whether a backend was found.\<close>

definition isSupportedDomain :: "Resolution \<Rightarrow> string \<Rightarrow> bool" where
  "isSupportedDomain r domain0 =
     (let domain = prepareDomain domain0
      in case getNamingMethod r domain of None \<Rightarrow> False | Some method \<Rightarrow> True)"

definition isSupportedDomainInNetwork :: "Resolution \<Rightarrow> string \<Rightarrow> bool" where
  "isSupportedDomainInNetwork r domain0 =
     (let domain = prepareDomain domain0
      in case getNamingMethod r domain of
           None \<Rightarrow> False
         | Some method \<Rightarrow> ns_isSupportedNetwork method)"

definition serviceName :: "Resolution \<Rightarrow> string \<Rightarrow> js_error + ResolutionMethod" where
  "serviceName r domain0 =
     (let domain = prepareDomain domain0
      in andThen (getNamingMethodOrThrow r domain) (\<lambda>method. Inr (ns_serviceName method domain)))"

definition getAllKeys :: "Resolution \<Rightarrow> string \<Rightarrow> js_error + jsval" where
  "getAllKeys r domain0 =
     (let domain = prepareDomain domain0
      in andThen (getNamingMethodOrThrow r domain) (\<lambda>method. ns_getAllKeys method domain))"

section \<open>Vocabulary of the statements\<close>

text \<open>
  An optional backend claims a domain when it is configured and its supported-domain
  predicate holds of the domain.
\<close>

definition claims :: "NamingService option \<Rightarrow> string \<Rightarrow> bool" where
  "claims slot domain =
     (case slot of None \<Rightarrow> False | Some method \<Rightarrow> ns_isSupportedDomain method domain)"

text \<open>
  Every configured backend carries the tag of its field. The constructor establishes
  this, and no operation of the router changes an instance.
\<close>

definition tags_ok :: "Resolution \<Rightarrow> bool" where
  "tags_ok r \<longleftrightarrow>
     (case ens r of None \<Rightarrow> True | Some b \<Rightarrow> ns_name b = Named ENS) \<and>
     (case zns r of None \<Rightarrow> True | Some b \<Rightarrow> ns_name b = Named ZNS) \<and>
     (case cns r of None \<Rightarrow> True | Some b \<Rightarrow> ns_name b = Named CNS) \<and>
     (case api r of None \<Rightarrow> True | Some b \<Rightarrow> ns_name b = UDAPI)"

section \<open>Example backends and instances\<close>

text \<open>
  A small backend used to run the router on concrete inputs: it claims the domains that
  end in \<open>ext\<close>, knows the one name \<open>brad\<close> under that extension, fails with an
  error outside the taxonomy for the name \<open>broken\<close>, and reports every other name as
  having no record.
\<close>

definition example_ns :: "ResolutionMethod \<Rightarrow> string \<Rightarrow> NamingService" where
  "example_ns n ext =
     \<lparr> ns_name = n,
       ns_isSupportedDomain = (\<lambda>d. drop (length d - length ext) d = ext),
       ns_isSupportedNetwork = True,
       ns_resolve = (\<lambda>d. Inr (if d = ''brad'' @ ext
                              then Object [''owner'' \<mapsto> String ''0x1''] else Null)),
       ns_address = (\<lambda>d t. if d = ''brad'' @ ext then Inr ''0xabc''
                            else if d = ''broken'' @ ext then Inl (JsError ''socket hang up'')
                            else Inl (ResolutionError RecordNotFound d)),
       ns_owner = (\<lambda>d. Inr (if d = ''brad'' @ ext then String ''0x1'' else Null)),
       ns_resolver = (\<lambda>d. Inr ''0xres''),
       ns_record = (\<lambda>d k. if d = ''brad'' @ ext then Inr ''example.com''
                           else Inl (ResolutionError RecordNotFound d)),
       ns_getAllKeys = (\<lambda>d. Inr Null),
       ns_chatId = (\<lambda>d. Inl (ResolutionError RecordNotFound d)),
       ns_chatpk = (\<lambda>d. Inl (ResolutionError RecordNotFound d)),
       ns_ipfsHash = (\<lambda>d. Inl (ResolutionError RecordNotFound d)),
       ns_httpUrl = (\<lambda>d. Inl (ResolutionError RecordNotFound d)),
       ns_email = (\<lambda>d. Inl (ResolutionError RecordNotFound d)),
       ns_namehash = (\<lambda>d. ''0x'' @ d),
       ns_childhash = (\<lambda>p l. p @ l),
       ns_serviceName = (\<lambda>d. n),
       ns_reverse = (\<lambda>a t. Inr (String (''brad'' @ ext))) \<rparr>"

text \<open>An instance in blockchain mode with an ENS-like and a ZNS-like backend.\<close>

definition example_instance :: Resolution where
  "example_instance =
     \<lparr> blockchain = True,
       ens = Some (example_ns (Named ENS) ''.eth''),
       zns = Some (example_ns (Named ZNS) ''.zil''),
       cns = None,
       api = None \<rparr>"

text \<open>An instance whose ZNS-like and CNS-like backends both claim \<open>.zil\<close>.\<close>

definition overlap_instance :: Resolution where
  "overlap_instance =
     \<lparr> blockchain = True,
       ens = Some (example_ns (Named ENS) ''.eth''),
       zns = Some (example_ns (Named ZNS) ''.zil''),
       cns = Some (example_ns (Named CNS) ''.zil''),
       api = None \<rparr>"

text \<open>
  Constructor bodies for the examples. The API client claims every domain. The bodies
  ignore their source, and the tags they return are overwritten by the class.
\<close>

definition example_externals :: externals where
  "example_externals =
     \<lparr> Ens_body = (\<lambda>s. Inr (example_ns UDAPI ''.eth'')),
       Zns_body = (\<lambda>s. Inr (example_ns UDAPI ''.zil'')),
       Cns_body = (\<lambda>s. Inr (example_ns UDAPI ''.crypto'')),
       Udapi_body = (\<lambda>s. Inr (example_ns UDAPI [])),
       DefaultAPI = Object [''url'' \<mapsto> String ''https://unstoppabledomains.com/api/v1''] \<rparr>"

section \<open>Canonicalization lemmas\<close>

lemma of_char_lowerChar:
  "(of_char (lowerChar c) :: nat) =
     (let n = (of_char c :: nat)
      in if (65 \<le> n \<and> n \<le> 90) \<or> (192 \<le> n \<and> n \<le> 222 \<and> n \<noteq> 215)
         then n + 32 else n)"
  by (simp add: lowerChar_def Let_def)

lemma lowerChar_idem: "lowerChar (lowerChar c) = lowerChar c"
proof -
  have "(of_char (lowerChar (lowerChar c)) :: nat) = of_char (lowerChar c)"
    by (simp add: of_char_lowerChar Let_def)
  then show ?thesis
    by (simp only: of_char_eq_iff)
qed

lemma isWhiteSpace_lowerChar: "isWhiteSpace (lowerChar c) = isWhiteSpace c"
  unfolding isWhiteSpace_def of_char_lowerChar Let_def
  by auto

lemma toLowerCase_idem: "toLowerCase (toLowerCase s) = toLowerCase s"
  by (simp add: toLowerCase_def lowerChar_idem)

lemma dropWhile_ws_toLowerCase:
  "dropWhile isWhiteSpace (toLowerCase s) = toLowerCase (dropWhile isWhiteSpace s)"
  by (induction s) (simp_all add: toLowerCase_def isWhiteSpace_lowerChar)

lemma trim_toLowerCase: "trim (toLowerCase s) = toLowerCase (trim s)"
proof -
  have "rev (toLowerCase s) = toLowerCase (rev s)" for s
    by (simp add: toLowerCase_def rev_map)
  then show ?thesis
    by (simp add: trim_def dropWhile_ws_toLowerCase)
qed

lemma dropWhile_ws_idem:
  "dropWhile isWhiteSpace (dropWhile isWhiteSpace s) = dropWhile isWhiteSpace s"
  by (induction s) simp_all

lemma dropWhile_append_keep:
  "\<not> P a \<Longrightarrow> dropWhile P (xs @ [a]) = dropWhile P xs @ [a]"
  by (induction xs) simp_all

lemma dropWhile_rev_dropWhile_rev:
  assumes "t = [] \<or> \<not> P (hd t)"
  shows "dropWhile P (rev (dropWhile P (rev t))) = rev (dropWhile P (rev t))"
proof (cases t)
  case Nil
  then show ?thesis by simp
next
  case (Cons a t')
  with assms have "\<not> P a" by simp
  then show ?thesis
    using Cons by (simp add: dropWhile_append_keep)
qed

lemma dropWhile_head: "dropWhile P s = [] \<or> \<not> P (hd (dropWhile P s))"
  by (induction s) simp_all

lemma trim_idem: "trim (trim s) = trim s"
proof -
  have "dropWhile isWhiteSpace (trim s) = trim s"
    unfolding trim_def
    by (rule dropWhile_rev_dropWhile_rev) (rule dropWhile_head)
  then show ?thesis
    by (simp add: trim_def dropWhile_ws_idem)
qed

lemma prepareDomain_eq: "prepareDomain d = toLowerCase (trim d)"
  by (simp add: prepareDomain_def trim_def toLowerCase_def)

lemma prepareDomain_idem: "prepareDomain (prepareDomain d) = prepareDomain d"
  by (simp add: prepareDomain_eq trim_toLowerCase trim_idem toLowerCase_idem)

section \<open>Sequencing\<close>

lemma andThen_simps [simp]:
  "andThen (Inl e) f = Inl e"
  "andThen (Inr v) f = f v"
  by (simp_all add: andThen_def)

section \<open>Evaluation of the examples\<close>

lemma prepareDomain_examples:
  "prepareDomain '' BRAD.ETH '' = ''brad.eth''"
  "prepareDomain ''BRAD.ETH'' = ''brad.eth''"
  "prepareDomain ''brad.eth'' = ''brad.eth''"
  "prepareDomain ''Nobody.eth'' = ''nobody.eth''"
  "prepareDomain ''nobody.eth'' = ''nobody.eth''"
  "prepareDomain ''broken.eth'' = ''broken.eth''"
  "prepareDomain ''brad.crypto'' = ''brad.crypto''"
  "prepareDomain ''Brad.Zil'' = ''brad.zil''"
  "prepareDomain ''brad.zil'' = ''brad.zil''"
  by code_simp+

lemma example_addressOrThrow:
  "addressOrThrow example_instance '' BRAD.ETH '' ''ETH'' = Inr ''0xabc''"
  "addressOrThrow example_instance ''Nobody.eth'' ''ETH'' =
     Inl (ResolutionError RecordNotFound ''nobody.eth'')"
  "addressOrThrow example_instance ''broken.eth'' ''ETH'' = Inl (JsError ''socket hang up'')"
  "addressOrThrow example_instance ''brad.crypto'' ''ETH'' =
     Inl (ResolutionError UnsupportedDomain ''brad.crypto'')"
  by (simp_all add: addressOrThrow_def getNamingMethodOrThrow_def getNamingMethod_def
      getResolutionMethods_def example_instance_def example_ns_def
      prepareDomain_examples)

section \<open>Idempotent canonicalization\<close>


section \<open>The non-throwing address lookup\<close>

lemma addressOrThrow_prepared:
  "addressOrThrow r (prepareDomain d) t = addressOrThrow r d t"
  by (simp add: addressOrThrow_def prepareDomain_idem)

text \<open>
  Claim C1. For every instance, domain and ticker: \<open>address\<close> returns null exactly
  when \<open>addressOrThrow\<close> throws a \<open>ResolutionError\<close>; when \<open>addressOrThrow\<close>
  returns a string, \<open>address\<close> returns that string; an error that is not a
  \<open>ResolutionError\<close> is passed on unchanged; and \<open>address\<close> never throws a
  \<open>ResolutionError\<close>.
\<close>

theorem address_null_iff_taxonomy_error:
  "(address r d t = Inr None \<longleftrightarrow> (\<exists>c x. addressOrThrow r d t = Inl (ResolutionError c x)))
   \<and> (\<forall>a. addressOrThrow r d t = Inr a \<longrightarrow> address r d t = Inr (Some a))
   \<and> (\<forall>m. addressOrThrow r d t = Inl (JsError m) \<longrightarrow> address r d t = Inl (JsError m))
   \<and> (\<forall>c x. address r d t \<noteq> Inl (ResolutionError c x))"
proof -
  have eq: "address r d t =
      (case addressOrThrow r d t of
         Inr a \<Rightarrow> Inr (Some a)
       | Inl error \<Rightarrow> if instanceof_ResolutionError error then Inr None else Inl error)"
    by (simp add: address_def addressOrThrow_prepared)
  show ?thesis
  proof (cases "addressOrThrow r d t")
    case (Inl e)
    then show ?thesis
      by (cases e) (simp_all add: eq)
  next
    case (Inr a)
    then show ?thesis
      by (simp add: eq)
  qed
qed

theorem address_null_iff_taxonomy_error_witness:
  "addressOrThrow example_instance '' BRAD.ETH '' ''ETH'' = Inr ''0xabc''
   \<and> address example_instance '' BRAD.ETH '' ''ETH'' = Inr (Some ''0xabc'')
   \<and> addressOrThrow example_instance ''Nobody.eth'' ''ETH'' =
       Inl (ResolutionError RecordNotFound ''nobody.eth'')
   \<and> address example_instance ''Nobody.eth'' ''ETH'' = Inr None
   \<and> addressOrThrow example_instance ''broken.eth'' ''ETH'' = Inl (JsError ''socket hang up'')
   \<and> address example_instance ''broken.eth'' ''ETH'' = Inl (JsError ''socket hang up'')"
  using address_null_iff_taxonomy_error [of example_instance "'' BRAD.ETH ''" "''ETH''"]
        address_null_iff_taxonomy_error [of example_instance "''Nobody.eth''" "''ETH''"]
        address_null_iff_taxonomy_error [of example_instance "''broken.eth''" "''ETH''"]
  by (simp add: example_addressOrThrow)

section \<open>Fixed priority of the backends\<close>

lemma find_present:
  "find P (present (v # vs)) =
     (case v of None \<Rightarrow> find P (present vs)
      | Some m \<Rightarrow> if P m then Some m else find P (present vs))"
  by (cases v) simp_all

text \<open>
  Claim C2. Backend selection is a first-match scan in fixed priority order: in
  blockchain mode the ENS-like backend is selected if it claims the canonicalized domain,
  otherwise the ZNS-like one if it does, otherwise the CNS-like one if it does; in API
  mode only the API backend is asked. No backend is selected when none claims the domain.
  So when two configured backends claim the same domain the earlier one is selected, and
  as the selection is a function of the instance and the domain, it is on every call.
\<close>

theorem getNamingMethod_first_match:
  "getNamingMethod r d =
     (if blockchain r then
        (if claims (ens r) (prepareDomain d) then ens r
         else if claims (zns r) (prepareDomain d) then zns r
         else if claims (cns r) (prepareDomain d) then cns r
         else None)
      else
        (if claims (api r) (prepareDomain d) then api r else None))"
  by (simp add: getNamingMethod_def getResolutionMethods_def claims_def find_present
      split: option.splits)

lemma example_claims:
  "claims (zns overlap_instance) ''brad.zil''"
  "claims (cns overlap_instance) ''brad.zil''"
  "\<not> claims (ens overlap_instance) ''brad.zil''"
  by (simp_all add: claims_def overlap_instance_def example_ns_def)

theorem getNamingMethod_first_match_witness:
  "claims (zns overlap_instance) (prepareDomain ''Brad.Zil'')
   \<and> claims (cns overlap_instance) (prepareDomain ''Brad.Zil'')
   \<and> getNamingMethod overlap_instance ''Brad.Zil'' = zns overlap_instance
   \<and> zns overlap_instance = Some (example_ns (Named ZNS) ''.zil'')"
  using getNamingMethod_first_match [of overlap_instance "''Brad.Zil''"]
  by (simp add: example_claims prepareDomain_examples) (simp add: overlap_instance_def)

section \<open>Normalization of the sources\<close>

lemma normalizeSource_result:
  "normalizeSource v p = Inl (JsError ''Unsupported configuration'') \<or> (\<exists>w. normalizeSource v p = Inr w)"
  by (simp add: normalizeSource_def Let_def)

lemma normalizeSource_outside:
  "typeof v \<notin> {''undefined'', ''boolean'', ''string'', ''object''} \<Longrightarrow>
   normalizeSource v p = Inl (JsError ''Unsupported configuration'')"
  by (simp add: normalizeSource_def Let_def)

lemma constructor_blockchain_object:
  "constructor E (Object m) a =
     andThen (normalizeSource (case m ''ens'' of None \<Rightarrow> Undefined | Some v \<Rightarrow> v)
                (case m ''web3Provider'' of None \<Rightarrow> Undefined | Some v \<Rightarrow> v)) (\<lambda>ens_n.
     andThen (normalizeSource (case m ''zns'' of None \<Rightarrow> Undefined | Some v \<Rightarrow> v) Undefined) (\<lambda>zns_n.
     andThen (normalizeSource (case m ''cns'' of None \<Rightarrow> Undefined | Some v \<Rightarrow> v)
                (case m ''web3Provider'' of None \<Rightarrow> Undefined | Some v \<Rightarrow> v)) (\<lambda>cns_n.
     andThen (construct_if ens_n (new_Ens E)) (\<lambda>e.
     andThen (construct_if zns_n (new_Zns E)) (\<lambda>z.
     andThen (construct_if cns_n (new_Cns E)) (\<lambda>c.
     Inr \<lparr>blockchain = True, ens = e, zns = z, cns = c, api = None\<rparr>))))))"
  by (simp add: constructor_def with_default_def Let_def)

lemma constructor_bad_source:
  assumes "k \<in> {''ens'', ''zns'', ''cns''}"
    and "m k = Some v"
    and "typeof v \<notin> {''undefined'', ''boolean'', ''string'', ''object''}"
  shows "constructor E (Object m) a = Inl (JsError ''Unsupported configuration'')"
proof -
  let ?bad = "Inl (JsError ''Unsupported configuration'') :: js_error + jsval"
  have bad: "normalizeSource v p = ?bad" for p
    using assms(3) by (rule normalizeSource_outside)
  consider "k = ''ens''" | "k = ''zns''" | "k = ''cns''"
    using assms(1) by auto
  then show ?thesis
  proof cases
    case 1
    then show ?thesis
      using assms(2) by (simp add: constructor_blockchain_object bad)
  next
    case 2
    then show ?thesis
      using assms(2)
        normalizeSource_result [of "case m ''ens'' of None \<Rightarrow> Undefined | Some v \<Rightarrow> v"
          "case m ''web3Provider'' of None \<Rightarrow> Undefined | Some v \<Rightarrow> v"]
      by (auto simp add: constructor_blockchain_object bad)
  next
    case 3
    then show ?thesis
      using assms(2)
        normalizeSource_result [of "case m ''ens'' of None \<Rightarrow> Undefined | Some v \<Rightarrow> v"
          "case m ''web3Provider'' of None \<Rightarrow> Undefined | Some v \<Rightarrow> v"]
        normalizeSource_result [of "case m ''zns'' of None \<Rightarrow> Undefined | Some v \<Rightarrow> v" Undefined]
      by (auto simp add: constructor_blockchain_object bad)
  qed
qed

text \<open>
  Claim C3. For every inherited provider \<open>p\<close>: an undefined source and \<open>true\<close>
  normalize to the object with the one property \<open>provider = p\<close>; \<open>false\<close>
  normalizes to \<open>false\<close>, the disabled sentinel; a string \<open>s\<close> to the object with
  the one property \<open>url = s\<close>; an object to \<open>provider = p\<close> overridden by the
  properties of the object (a property of the object wins, \<open>provider\<close> is inherited
  when the object has none, no other property appears). A source whose \<open>typeof\<close> is
  none of undefined, boolean, string, object (a number, say) throws the configuration
  error, and the constructor called with such a source for any of the three backends
  throws it too, so no instance exists on which a resolution could be called.
\<close>

theorem normalizeSource_cases:
  "normalizeSource Undefined p = Inr (Object [''provider'' \<mapsto> p])
   \<and> normalizeSource (Boolean True) p = Inr (Object [''provider'' \<mapsto> p])
   \<and> normalizeSource (Boolean False) p = Inr (Boolean False)
   \<and> normalizeSource (String s) p = Inr (Object [''url'' \<mapsto> String s])
   \<and> normalizeSource (Object obj) p = Inr (Object ([''provider'' \<mapsto> p] ++ obj))
   \<and> (\<forall>k. ([''provider'' \<mapsto> p] ++ obj) k =
          (case obj k of Some x \<Rightarrow> Some x
           | None \<Rightarrow> if k = ''provider'' then Some p else None))
   \<and> (\<forall>v. typeof v \<notin> {''undefined'', ''boolean'', ''string'', ''object''} \<longrightarrow>
          normalizeSource v p = Inl (JsError ''Unsupported configuration''))
   \<and> (\<forall>E m a k v. k \<in> {''ens'', ''zns'', ''cns''} \<longrightarrow> m k = Some v \<longrightarrow>
          typeof v \<notin> {''undefined'', ''boolean'', ''string'', ''object''} \<longrightarrow>
          constructor E (Object m) a = Inl (JsError ''Unsupported configuration''))"
proof -
  have 1: "normalizeSource Undefined p = Inr (Object [''provider'' \<mapsto> p])"
    and 2: "normalizeSource (Boolean True) p = Inr (Object [''provider'' \<mapsto> p])"
    and 3: "normalizeSource (Boolean False) p = Inr (Boolean False)"
    and 4: "normalizeSource (String s) p = Inr (Object [''url'' \<mapsto> String s])"
    and 5: "normalizeSource (Object obj) p = Inr (Object ([''provider'' \<mapsto> p] ++ obj))"
    by (simp_all add: normalizeSource_def)
  have 6: "\<forall>k. ([''provider'' \<mapsto> p] ++ obj) k =
          (case obj k of Some x \<Rightarrow> Some x
           | None \<Rightarrow> if k = ''provider'' then Some p else None)"
    by (simp add: map_add_def split: option.splits)
  have 7: "\<forall>v. typeof v \<notin> {''undefined'', ''boolean'', ''string'', ''object''} \<longrightarrow>
          normalizeSource v p = Inl (JsError ''Unsupported configuration'')"
    using normalizeSource_outside by blast
  have 8: "\<forall>E m a k v. k \<in> {''ens'', ''zns'', ''cns''} \<longrightarrow> m k = Some v \<longrightarrow>
          typeof v \<notin> {''undefined'', ''boolean'', ''string'', ''object''} \<longrightarrow>
          constructor E (Object m) a = Inl (JsError ''Unsupported configuration'')"
    using constructor_bad_source by blast
  from 1 2 3 4 5 6 7 8 show ?thesis by blast
qed

theorem normalizeSource_cases_witness:
  "typeof (Number 5) \<notin> {''undefined'', ''boolean'', ''string'', ''object''}
   \<and> normalizeSource (Number 5) Undefined = Inl (JsError ''Unsupported configuration'')
   \<and> ''zns'' \<in> {''ens'', ''zns'', ''cns''}
   \<and> [''zns'' \<mapsto> Number 5] ''zns'' = Some (Number 5)
   \<and> constructor example_externals (Object [''zns'' \<mapsto> Number 5]) Undefined =
       Inl (JsError ''Unsupported configuration'')
   \<and> normalizeSource (Object [''network'' \<mapsto> String ''mainnet'']) (Object Map.empty) =
       Inr (Object [''provider'' \<mapsto> Object Map.empty, ''network'' \<mapsto> String ''mainnet''])"
proof -
  have a: "typeof (Number 5) \<notin> {''undefined'', ''boolean'', ''string'', ''object''}"
    by simp
  have b: "[''zns'' \<mapsto> Number 5] ''zns'' = Some (Number 5)"
    by simp
  have c: "''zns'' \<in> {''ens'', ''zns'', ''cns''}"
    by simp
  have d: "[''provider'' \<mapsto> Object Map.empty] ++ [''network'' \<mapsto> String ''mainnet''] =
           [''provider'' \<mapsto> Object Map.empty, ''network'' \<mapsto> String ''mainnet'']"
    by simp
  show ?thesis
    using a b c d
      normalizeSource_cases [where p = Undefined]
      normalizeSource_cases [where p = "Object Map.empty"
        and obj = "[''network'' \<mapsto> String ''mainnet'']"]
    by metis
qed

section \<open>Construction\<close>

lemma andThen_eq_Inr:
  "andThen m f = Inr r \<longleftrightarrow> (\<exists>v. m = Inr v \<and> f v = Inr r)"
  by (cases m) simp_all

lemma tagged_Inr: "tagged n res = Inr b \<Longrightarrow> ns_name b = n"
  by (cases res) (auto simp: tagged_def)

lemma construct_if_tag:
  assumes "construct_if s new = Inr (Some b)" and "\<And>src c. new src = Inr c \<Longrightarrow> ns_name c = n"
  shows "ns_name b = n"
  using assms by (auto simp: construct_if_def andThen_eq_Inr split: if_splits)

lemma new_tags:
  "new_Ens E src = Inr c \<Longrightarrow> ns_name c = Named ENS"
  "new_Zns E src = Inr c \<Longrightarrow> ns_name c = Named ZNS"
  "new_Cns E src = Inr c \<Longrightarrow> ns_name c = Named CNS"
  "new_Udapi E src = Inr c \<Longrightarrow> ns_name c = UDAPI"
  by (auto simp: new_Ens_def new_Zns_def new_Cns_def new_Udapi_def dest: tagged_Inr)

lemma constructor_blockchain_mode:
  assumes "constructor E bc a = Inr r" and "truthy (with_default bc (Boolean True))"
  shows "blockchain r \<and> api r = None \<and> tags_ok r"
proof -
  from assms obtain e z c en zn cn where r: "r = \<lparr>blockchain = True, ens = e, zns = z, cns = c, api = None\<rparr>"
    and e: "construct_if en (new_Ens E) = Inr e"
    and z: "construct_if zn (new_Zns E) = Inr z"
    and c: "construct_if cn (new_Cns E) = Inr c"
    by (auto simp: constructor_def Let_def andThen_eq_Inr)
  have "ns_name b = Named ENS" if "e = Some b" for b
    using e that construct_if_tag [of en "new_Ens E" b "Named ENS"] new_tags(1) by blast
  moreover have "ns_name b = Named ZNS" if "z = Some b" for b
    using z that construct_if_tag [of zn "new_Zns E" b "Named ZNS"] new_tags(2) by blast
  moreover have "ns_name b = Named CNS" if "c = Some b" for b
    using c that construct_if_tag [of cn "new_Cns E" b "Named CNS"] new_tags(3) by blast
  ultimately show ?thesis
    by (simp add: r tags_ok_def split: option.splits)
qed

lemma constructor_api_mode:
  assumes "constructor E bc a = Inr r" and "\<not> truthy (with_default bc (Boolean True))"
  shows "\<exists>b. r = \<lparr>blockchain = False, ens = None, zns = None, cns = None, api = Some b\<rparr>
             \<and> ns_name b = UDAPI"
  using assms by (auto simp: constructor_def Let_def andThen_eq_Inr dest: new_tags(4))

lemma constructor_tags_ok: "constructor E bc a = Inr r \<Longrightarrow> tags_ok r"
  using constructor_blockchain_mode [of E bc a r] constructor_api_mode [of E bc a r]
  by (cases "truthy (with_default bc (Boolean True))") (auto simp: tags_ok_def)

lemma length_present: "length (present vs) \<le> length vs"
  by (induction vs rule: present.induct) simp_all

lemma constructed_modes:
  assumes "constructor E bc a = Inr r"
  shows "(truthy (with_default bc (Boolean True)) \<longrightarrow>
            blockchain r \<and> api r = None
            \<and> getResolutionMethods r = present [ens r, zns r, cns r]
            \<and> length (getResolutionMethods r) \<le> 3
            \<and> (\<forall>m \<in> set (getResolutionMethods r). ns_name m \<noteq> UDAPI))
       \<and> (\<not> truthy (with_default bc (Boolean True)) \<longrightarrow>
            \<not> blockchain r \<and> ens r = None \<and> zns r = None \<and> cns r = None
            \<and> (\<exists>b. api r = Some b \<and> ns_name b = UDAPI
                  \<and> getResolutionMethods r = [b]
                  \<and> (\<forall>x y z. getResolutionMethods (r\<lparr>ens := x, zns := y, cns := z\<rparr>) = [b])
                  \<and> (\<forall>d. getNamingMethod r d =
                          (if ns_isSupportedDomain b (prepareDomain d) then Some b else None))
                  \<and> (\<forall>d. isSupportedDomain r d = ns_isSupportedDomain b (prepareDomain d))))"
proof (cases "truthy (with_default bc (Boolean True))")
  case True
  from constructor_blockchain_mode [OF assms True]
  have m: "blockchain r" "api r = None" and t: "tags_ok r"
    by simp_all
  have g: "getResolutionMethods r = present [ens r, zns r, cns r]"
    using m by (simp add: getResolutionMethods_def)
  have "length (getResolutionMethods r) \<le> 3"
    using length_present [of "[ens r, zns r, cns r]"] by (simp add: g)
  moreover have "\<forall>m \<in> set (getResolutionMethods r). ns_name m \<noteq> UDAPI"
    using t by (auto simp: g tags_ok_def split: option.splits)
  ultimately show ?thesis
    using True m g by simp
next
  case False
  from constructor_api_mode [OF assms False] obtain b
    where r: "r = \<lparr>blockchain = False, ens = None, zns = None, cns = None, api = Some b\<rparr>"
      and b: "ns_name b = UDAPI"
    by blast
  have g: "getResolutionMethods r = [b]"
    by (simp add: r getResolutionMethods_def)
  have g': "\<forall>x y z. getResolutionMethods (r\<lparr>ens := x, zns := y, cns := z\<rparr>) = [b]"
    by (simp add: r getResolutionMethods_def)
  have n: "\<forall>d. getNamingMethod r d =
              (if ns_isSupportedDomain b (prepareDomain d) then Some b else None)"
    by (simp add: getNamingMethod_def g)
  have s: "\<forall>d. isSupportedDomain r d = ns_isSupportedDomain b (prepareDomain d)"
    by (simp add: isSupportedDomain_def n prepareDomain_idem)
  have "api r = Some b" "\<not> blockchain r" "ens r = None" "zns r = None" "cns r = None"
    by (simp_all add: r)
  then show ?thesis
    using False b g g' n s by blast
qed

text \<open>
  Claim C5. When the \<open>blockchain\<close> option is falsy the constructor builds the API
  client and nothing else: it returns exactly when the constructor of the API client
  does. Whenever the constructor returns an instance: if the \<open>blockchain\<close> option
  (after its default \<open>true\<close>) is truthy, the instance is in blockchain mode, has no API
  backend, and dispatches over at most three backends, the configured ones among the
  ENS-like, ZNS-like and CNS-like, none of them the API client; if the option is falsy
  (\<open>false\<close> in particular), the instance has no ENS-, ZNS- or CNS-like backend and
  exactly one API backend, the list every dispatch runs over is that one backend
  whatever the three blockchain fields hold, and backend selection and
  \<open>isSupportedDomain\<close> are decided by the API backend's predicate alone.
\<close>

theorem construction_modes_exclusive:
  "(\<not> truthy (with_default bc (Boolean True)) \<longrightarrow>
      constructor E bc a =
        andThen (new_Udapi E (with_default a (DefaultAPI E))) (\<lambda>b.
          Inr \<lparr>blockchain = False, ens = None, zns = None, cns = None, api = Some b\<rparr>))
   \<and> (\<forall>r. constructor E bc a = Inr r \<longrightarrow>
         (truthy (with_default bc (Boolean True)) \<longrightarrow>
            blockchain r \<and> api r = None
            \<and> getResolutionMethods r = present [ens r, zns r, cns r]
            \<and> length (getResolutionMethods r) \<le> 3
            \<and> (\<forall>m \<in> set (getResolutionMethods r). ns_name m \<noteq> UDAPI))
       \<and> (\<not> truthy (with_default bc (Boolean True)) \<longrightarrow>
            \<not> blockchain r \<and> ens r = None \<and> zns r = None \<and> cns r = None
            \<and> (\<exists>b. api r = Some b \<and> ns_name b = UDAPI
                  \<and> getResolutionMethods r = [b]
                  \<and> (\<forall>x y z. getResolutionMethods (r\<lparr>ens := x, zns := y, cns := z\<rparr>) = [b])
                  \<and> (\<forall>d. getNamingMethod r d =
                          (if ns_isSupportedDomain b (prepareDomain d) then Some b else None))
                  \<and> (\<forall>d. isSupportedDomain r d = ns_isSupportedDomain b (prepareDomain d)))))"
proof -
  have "constructor E bc a =
        andThen (new_Udapi E (with_default a (DefaultAPI E))) (\<lambda>b.
          Inr \<lparr>blockchain = False, ens = None, zns = None, cns = None, api = Some b\<rparr>)"
    if "\<not> truthy (with_default bc (Boolean True))"
    using that by (simp add: constructor_def Let_def)
  then show ?thesis
    using constructed_modes [of E bc a] by blast
qed

lemma example_constructor_api:
  "constructor example_externals (Boolean False) Undefined =
     Inr \<lparr>blockchain = False, ens = None, zns = None, cns = None,
          api = Some ((example_ns UDAPI [])\<lparr>ns_name := UDAPI\<rparr>)\<rparr>"
  by (simp add: constructor_def with_default_def new_Udapi_def tagged_def example_externals_def)

lemma example_constructor_default:
  "constructor example_externals Undefined Undefined =
     Inr \<lparr>blockchain = True,
          ens = Some ((example_ns UDAPI ''.eth'')\<lparr>ns_name := Named ENS\<rparr>),
          zns = Some ((example_ns UDAPI ''.zil'')\<lparr>ns_name := Named ZNS\<rparr>),
          cns = Some ((example_ns UDAPI ''.crypto'')\<lparr>ns_name := Named CNS\<rparr>),
          api = None\<rparr>"
  by (simp add: constructor_def with_default_def normalizeSource_def construct_if_def
      new_Ens_def new_Zns_def new_Cns_def tagged_def example_externals_def)

theorem construction_modes_exclusive_witness:
  "constructor example_externals (Boolean False) Undefined =
     Inr \<lparr>blockchain = False, ens = None, zns = None, cns = None,
          api = Some ((example_ns UDAPI [])\<lparr>ns_name := UDAPI\<rparr>)\<rparr>
   \<and> \<not> truthy (with_default (Boolean False) (Boolean True))
   \<and> isSupportedDomain \<lparr>blockchain = False, ens = None, zns = None, cns = None,
          api = Some ((example_ns UDAPI [])\<lparr>ns_name := UDAPI\<rparr>)\<rparr> ''Brad.Zil''
   \<and> constructor example_externals Undefined Undefined =
     Inr \<lparr>blockchain = True,
          ens = Some ((example_ns UDAPI ''.eth'')\<lparr>ns_name := Named ENS\<rparr>),
          zns = Some ((example_ns UDAPI ''.zil'')\<lparr>ns_name := Named ZNS\<rparr>),
          cns = Some ((example_ns UDAPI ''.crypto'')\<lparr>ns_name := Named CNS\<rparr>),
          api = None\<rparr>
   \<and> truthy (with_default Undefined (Boolean True))
   \<and> length (getResolutionMethods \<lparr>blockchain = True,
          ens = Some ((example_ns UDAPI ''.eth'')\<lparr>ns_name := Named ENS\<rparr>),
          zns = Some ((example_ns UDAPI ''.zil'')\<lparr>ns_name := Named ZNS\<rparr>),
          cns = Some ((example_ns UDAPI ''.crypto'')\<lparr>ns_name := Named CNS\<rparr>),
          api = None\<rparr>) \<le> 3"
proof -
  have f: "\<not> truthy (with_default (Boolean False) (Boolean True))"
    and t: "truthy (with_default Undefined (Boolean True))"
    by (simp_all add: with_default_def)
  have s: "ns_isSupportedDomain ((example_ns UDAPI [])\<lparr>ns_name := UDAPI\<rparr>) d" for d
    by (simp add: example_ns_def)
  note A = construction_modes_exclusive
    [where bc = "Boolean False" and E = example_externals and a = Undefined]
  note B = construction_modes_exclusive
    [where bc = Undefined and E = example_externals and a = Undefined]
  have i: "isSupportedDomain \<lparr>blockchain = False, ens = None, zns = None, cns = None,
          api = Some ((example_ns UDAPI [])\<lparr>ns_name := UDAPI\<rparr>)\<rparr> ''Brad.Zil''"
    using A f example_constructor_api s by auto
  have l: "length (getResolutionMethods \<lparr>blockchain = True,
          ens = Some ((example_ns UDAPI ''.eth'')\<lparr>ns_name := Named ENS\<rparr>),
          zns = Some ((example_ns UDAPI ''.zil'')\<lparr>ns_name := Named ZNS\<rparr>),
          cns = Some ((example_ns UDAPI ''.crypto'')\<lparr>ns_name := Named CNS\<rparr>),
          api = None\<rparr>) \<le> 3"
    using B t example_constructor_default by blast
  show ?thesis
    using i l f t example_constructor_api example_constructor_default
    by simp
qed

section \<open>Reverse lookup\<close>

lemma find_None_iff': "find P xs = None \<longleftrightarrow> (\<forall>x\<in>set xs. \<not> P x)"
  by (induction xs) simp_all

lemma find_Some_D: "find P xs = Some x \<Longrightarrow> x \<in> set xs \<and> P x"
  by (induction xs) (auto split: if_splits)

lemma findNamingService_tags_ok:
  assumes "tags_ok r"
  shows "findNamingService r ENS =
           (if blockchain r then
              (case ens r of None \<Rightarrow> Inl (ResolutionError NamingServiceDown ''ENS'')
               | Some e \<Rightarrow> Inr e)
            else Inl (ResolutionError NamingServiceDown ''ENS''))"
  using assms
  by (auto simp: findNamingService_def getResolutionMethods_def tags_ok_def
      split: option.splits)

text \<open>
  Claim C6. \<open>reverse\<close> takes no domain and picks its backend by the tag \<open>ENS\<close>:
  when no configured backend carries that tag it throws the \<open>NamingServiceDown\<close>
  error naming \<open>ENS\<close>; when one does, the call goes to a configured backend with that
  tag. On every constructed instance this is the backend of the \<open>ens\<close> field in
  blockchain mode, and the error when that field is unset; on every instance constructed
  in API mode it is the error.
\<close>

theorem reverse_targets_ENS:
  "((\<forall>m \<in> set (getResolutionMethods r). ns_name m \<noteq> Named ENS) \<longrightarrow>
       reverse r addr t = Inl (ResolutionError NamingServiceDown ''ENS''))
   \<and> (\<forall>s. findNamingService r ENS = Inr s \<longrightarrow>
          s \<in> set (getResolutionMethods r) \<and> ns_name s = Named ENS
          \<and> reverse r addr t = ns_reverse s addr t)
   \<and> ((\<exists>m \<in> set (getResolutionMethods r). ns_name m = Named ENS) \<longrightarrow>
          (\<exists>s. findNamingService r ENS = Inr s))
   \<and> (\<forall>E bc a r'. constructor E bc a = Inr r' \<longrightarrow>
          reverse r' addr t =
            (if blockchain r' then
               (case ens r' of None \<Rightarrow> Inl (ResolutionError NamingServiceDown ''ENS'')
                | Some e \<Rightarrow> ns_reverse e addr t)
             else Inl (ResolutionError NamingServiceDown ''ENS'')))
   \<and> (\<forall>E bc a r'. constructor E bc a = Inr r' \<longrightarrow>
          \<not> truthy (with_default bc (Boolean True)) \<longrightarrow>
          reverse r' addr t = Inl (ResolutionError NamingServiceDown ''ENS''))"
proof -
  let ?down = "Inl (ResolutionError NamingServiceDown ''ENS'') :: js_error + jsval"
  have 1: "(\<forall>m \<in> set (getResolutionMethods r). ns_name m \<noteq> Named ENS) \<longrightarrow>
       reverse r addr t = ?down"
  proof
    assume "\<forall>m \<in> set (getResolutionMethods r). ns_name m \<noteq> Named ENS"
    then have "find (\<lambda>m. ns_name m = Named ENS) (getResolutionMethods r) = None"
      by (simp add: find_None_iff')
    then show "reverse r addr t = ?down"
      by (simp add: reverse_def findNamingService_def)
  qed
  have 2: "\<forall>s. findNamingService r ENS = Inr s \<longrightarrow>
          s \<in> set (getResolutionMethods r) \<and> ns_name s = Named ENS
          \<and> reverse r addr t = ns_reverse s addr t"
  proof (intro allI impI)
    fix s assume f: "findNamingService r ENS = Inr s"
    then have "find (\<lambda>m. ns_name m = Named ENS) (getResolutionMethods r) = Some s"
      by (simp add: findNamingService_def split: option.splits)
    then have "s \<in> set (getResolutionMethods r) \<and> ns_name s = Named ENS"
      by (rule find_Some_D)
    then show "s \<in> set (getResolutionMethods r) \<and> ns_name s = Named ENS
          \<and> reverse r addr t = ns_reverse s addr t"
      using f by (simp add: reverse_def)
  qed
  have 3: "(\<exists>m \<in> set (getResolutionMethods r). ns_name m = Named ENS) \<longrightarrow>
          (\<exists>s. findNamingService r ENS = Inr s)"
  proof
    assume "\<exists>m \<in> set (getResolutionMethods r). ns_name m = Named ENS"
    then have "find (\<lambda>m. ns_name m = Named ENS) (getResolutionMethods r) \<noteq> None"
      by (simp add: find_None_iff')
    then show "\<exists>s. findNamingService r ENS = Inr s"
      by (auto simp: findNamingService_def)
  qed
  have 4: "reverse r' addr t =
            (if blockchain r' then
               (case ens r' of None \<Rightarrow> ?down | Some e \<Rightarrow> ns_reverse e addr t)
             else ?down)"
    if "constructor E bc a = Inr r'" for E bc a r'
    using findNamingService_tags_ok [OF constructor_tags_ok [OF that]]
    by (simp add: reverse_def split: option.splits)
  have 5: "reverse r' addr t = ?down"
    if "constructor E bc a = Inr r'" "\<not> truthy (with_default bc (Boolean True))" for E bc a r'
    using 4 [OF that(1)] constructor_api_mode [OF that] by auto
  from 1 2 3 4 5 show ?thesis by blast
qed

lemma example_reverse:
  "findNamingService example_instance ENS = Inr (example_ns (Named ENS) ''.eth'')"
  "ns_reverse (example_ns (Named ENS) ''.eth'') ''0xabc'' ''ETH'' = Inr (String ''brad.eth'')"
  by (simp_all add: findNamingService_def getResolutionMethods_def example_instance_def
      example_ns_def)

theorem reverse_targets_ENS_witness:
  "findNamingService example_instance ENS = Inr (example_ns (Named ENS) ''.eth'')
   \<and> reverse example_instance ''0xabc'' ''ETH'' = Inr (String ''brad.eth'')
   \<and> constructor example_externals (Boolean False) Undefined =
       Inr \<lparr>blockchain = False, ens = None, zns = None, cns = None,
            api = Some ((example_ns UDAPI [])\<lparr>ns_name := UDAPI\<rparr>)\<rparr>
   \<and> \<not> truthy (with_default (Boolean False) (Boolean True))
   \<and> reverse \<lparr>blockchain = False, ens = None, zns = None, cns = None,
            api = Some ((example_ns UDAPI [])\<lparr>ns_name := UDAPI\<rparr>)\<rparr> ''0xabc'' ''ETH'' =
       Inl (ResolutionError NamingServiceDown ''ENS'')
   \<and> map ns_name (getResolutionMethods (example_instance\<lparr>ens := None\<rparr>)) = [Named ZNS]
   \<and> reverse (example_instance\<lparr>ens := None\<rparr>) ''0xabc'' ''ETH'' =
       Inl (ResolutionError NamingServiceDown ''ENS'')"
proof -
  have f: "\<not> truthy (with_default (Boolean False) (Boolean True))"
    by (simp add: with_default_def)
  have n: "\<forall>m \<in> set (getResolutionMethods (example_instance\<lparr>ens := None\<rparr>)). ns_name m \<noteq> Named ENS"
    by (simp add: getResolutionMethods_def example_instance_def example_ns_def)
  have r1: "reverse example_instance ''0xabc'' ''ETH'' = Inr (String ''brad.eth'')"
    using reverse_targets_ENS [of example_instance "''0xabc''" "''ETH''"]
    by (simp add: example_reverse)
  have r2: "reverse (example_instance\<lparr>ens := None\<rparr>) ''0xabc'' ''ETH'' =
       Inl (ResolutionError NamingServiceDown ''ENS'')"
    using reverse_targets_ENS [of "example_instance\<lparr>ens := None\<rparr>" "''0xabc''" "''ETH''"] n
    by blast
  have r3: "reverse \<lparr>blockchain = False, ens = None, zns = None, cns = None,
            api = Some ((example_ns UDAPI [])\<lparr>ns_name := UDAPI\<rparr>)\<rparr> ''0xabc'' ''ETH'' =
       Inl (ResolutionError NamingServiceDown ''ENS'')"
    using reverse_targets_ENS [of example_instance "''0xabc''" "''ETH''"]
      example_constructor_api f
    by blast
  have g: "map ns_name (getResolutionMethods (example_instance\<lparr>ens := None\<rparr>)) = [Named ZNS]"
    by (simp add: getResolutionMethods_def example_instance_def example_ns_def)
  show ?thesis
    using r1 r2 r3 f g example_reverse(1) example_constructor_api
    by simp
qed

section \<open>A null source\<close>

text \<open>
  Claim C10. A \<open>null\<close> source takes the object branch of the normalizer and spreads
  no property: it normalizes to the object with the one property \<open>provider = p\<close>,
  as an undefined source does, not to the disabled sentinel and not to the configuration
  error. That object is truthy, so the backend is constructed from it; the constructor
  behaves on a \<open>null\<close> source of any of the three backends as on an omitted one.
\<close>

theorem null_source_enabled:
  "normalizeSource Null p = Inr (Object [''provider'' \<mapsto> p])
   \<and> normalizeSource Null p = normalizeSource Undefined p
   \<and> normalizeSource Null p \<noteq> Inr (Boolean False)
   \<and> normalizeSource Null p \<noteq> Inl (JsError ''Unsupported configuration'')
   \<and> construct_if (Object [''provider'' \<mapsto> p]) new =
       andThen (new (Object [''provider'' \<mapsto> p])) (\<lambda>b. Inr (Some b))
   \<and> constructor E (Object (m(''ens'' \<mapsto> Null))) a = constructor E (Object (m(''ens'' := None))) a
   \<and> constructor E (Object (m(''zns'' \<mapsto> Null))) a = constructor E (Object (m(''zns'' := None))) a
   \<and> constructor E (Object (m(''cns'' \<mapsto> Null))) a = constructor E (Object (m(''cns'' := None))) a
   \<and> constructor example_externals (Object [''ens'' \<mapsto> Null, ''zns'' \<mapsto> Boolean False]) Undefined =
       Inr \<lparr>blockchain = True,
            ens = Some ((example_ns UDAPI ''.eth'')\<lparr>ns_name := Named ENS\<rparr>),
            zns = None,
            cns = Some ((example_ns UDAPI ''.crypto'')\<lparr>ns_name := Named CNS\<rparr>),
            api = None\<rparr>"
proof -
  have n: "normalizeSource Null q = normalizeSource Undefined q" for q
    by (simp add: normalizeSource_def)
  have 1: "normalizeSource Null p = Inr (Object [''provider'' \<mapsto> p])"
    by (simp add: normalizeSource_def)
  have 2: "construct_if (Object [''provider'' \<mapsto> p]) new =
       andThen (new (Object [''provider'' \<mapsto> p])) (\<lambda>b. Inr (Some b))"
    by (simp add: construct_if_def)
  have 3: "constructor E (Object (m(''ens'' \<mapsto> Null))) a = constructor E (Object (m(''ens'' := None))) a"
    by (simp add: constructor_blockchain_object n)
  have 4: "constructor E (Object (m(''zns'' \<mapsto> Null))) a = constructor E (Object (m(''zns'' := None))) a"
    by (simp add: constructor_blockchain_object n)
  have 5: "constructor E (Object (m(''cns'' \<mapsto> Null))) a = constructor E (Object (m(''cns'' := None))) a"
    by (simp add: constructor_blockchain_object n)
  have 6: "constructor example_externals (Object [''ens'' \<mapsto> Null, ''zns'' \<mapsto> Boolean False]) Undefined =
       Inr \<lparr>blockchain = True,
            ens = Some ((example_ns UDAPI ''.eth'')\<lparr>ns_name := Named ENS\<rparr>),
            zns = None,
            cns = Some ((example_ns UDAPI ''.crypto'')\<lparr>ns_name := Named CNS\<rparr>),
            api = None\<rparr>"
    by (simp add: constructor_blockchain_object normalizeSource_def construct_if_def
      new_Ens_def new_Zns_def new_Cns_def tagged_def example_externals_def)
  show ?thesis
    using 1 2 3 4 5 6 n by simp
qed

section \<open>Resolving a domain\<close>

lemma getNamingMethod_prepared:
  "getNamingMethod r (prepareDomain d) = getNamingMethod r d"
  by (simp add: getNamingMethod_def prepareDomain_idem)

lemma getNamingMethodOrThrow_eq:
  "getNamingMethodOrThrow r (prepareDomain d) =
     (case getNamingMethod r d of
        None \<Rightarrow> Inl (ResolutionError UnsupportedDomain (prepareDomain d))
      | Some method \<Rightarrow> Inr method)"
  by (simp add: getNamingMethodOrThrow_def getNamingMethod_prepared prepareDomain_idem)

lemma getNamingMethod_Some_supported:
  "getNamingMethod r d = Some m \<Longrightarrow>
     m \<in> set (getResolutionMethods r) \<and> ns_isSupportedDomain m (prepareDomain d)"
  unfolding getNamingMethod_def Let_def by (rule find_Some_D)

text \<open>
  Claim C7. When a backend is selected for the domain: if it returns a record bundle (an
  object), \<open>resolve\<close> returns that bundle; if it returns \<open>null\<close>, \<open>resolve\<close>
  returns the constant \<open>UnclaimedDomainResponse\<close> as a value, not an error; an error
  of the backend is passed on. When no configured backend claims the domain,
  \<open>resolve\<close> throws the \<open>UnsupportedDomain\<close> error for the canonicalized domain.
  The selected backend is a configured one that claims the canonicalized domain.
\<close>

theorem resolve_bundle_or_unclaimed:
  "(\<forall>m bundle. getNamingMethod r d = Some m \<longrightarrow>
        ns_resolve m (prepareDomain d) = Inr (Object bundle) \<longrightarrow>
        resolve unclaimed r d = Inr (Object bundle))
   \<and> (\<forall>m. getNamingMethod r d = Some m \<longrightarrow>
        ns_resolve m (prepareDomain d) = Inr Null \<longrightarrow>
        resolve unclaimed r d = Inr unclaimed)
   \<and> (\<forall>m e. getNamingMethod r d = Some m \<longrightarrow>
        ns_resolve m (prepareDomain d) = Inl e \<longrightarrow>
        resolve unclaimed r d = Inl e)
   \<and> (getNamingMethod r d = None \<longrightarrow>
        resolve unclaimed r d = Inl (ResolutionError UnsupportedDomain (prepareDomain d)))
   \<and> (\<forall>m. getNamingMethod r d = Some m \<longrightarrow>
        m \<in> set (getResolutionMethods r) \<and> ns_isSupportedDomain m (prepareDomain d))"
proof -
  have eq: "resolve unclaimed r d =
      (case getNamingMethod r d of
         None \<Rightarrow> Inl (ResolutionError UnsupportedDomain (prepareDomain d))
       | Some m \<Rightarrow>
           andThen (ns_resolve m (prepareDomain d)) (\<lambda>result.
             Inr (if truthy result then result else unclaimed)))"
    by (simp add: resolve_def getNamingMethodOrThrow_eq split: option.splits)
  show ?thesis
    using getNamingMethod_Some_supported [of r d]
    by (auto simp: eq)
qed

lemma example_ns_sel:
  "ns_name (example_ns n ext) = n"
  "ns_isSupportedDomain (example_ns n ext) d = (drop (length d - length ext) d = ext)"
  "ns_resolve (example_ns n ext) d =
     Inr (if d = ''brad'' @ ext then Object [''owner'' \<mapsto> String ''0x1''] else Null)"
  "ns_record (example_ns n ext) d k =
     (if d = ''brad'' @ ext then Inr ''example.com'' else Inl (ResolutionError RecordNotFound d))"
  "ns_namehash (example_ns n ext) d = ''0x'' @ d"
  by (simp_all add: example_ns_def)

lemma example_getNamingMethod:
  "getNamingMethod example_instance '' BRAD.ETH '' = Some (example_ns (Named ENS) ''.eth'')"
  "getNamingMethod example_instance ''Nobody.eth'' = Some (example_ns (Named ENS) ''.eth'')"
  "getNamingMethod example_instance ''brad.crypto'' = None"
  by (simp_all add: getNamingMethod_def getResolutionMethods_def example_instance_def
      example_ns_sel prepareDomain_examples)

lemma example_ns_resolve:
  "ns_resolve (example_ns (Named ENS) ''.eth'') ''brad.eth'' = Inr (Object [''owner'' \<mapsto> String ''0x1''])"
  "ns_resolve (example_ns (Named ENS) ''.eth'') ''nobody.eth'' = Inr Null"
  by (simp_all add: example_ns_sel)

theorem resolve_bundle_or_unclaimed_witness:
  "getNamingMethod example_instance '' BRAD.ETH '' = Some (example_ns (Named ENS) ''.eth'')
   \<and> ns_resolve (example_ns (Named ENS) ''.eth'') (prepareDomain '' BRAD.ETH '') =
       Inr (Object [''owner'' \<mapsto> String ''0x1''])
   \<and> resolve (Object Map.empty) example_instance '' BRAD.ETH '' =
       Inr (Object [''owner'' \<mapsto> String ''0x1''])
   \<and> getNamingMethod example_instance ''Nobody.eth'' = Some (example_ns (Named ENS) ''.eth'')
   \<and> ns_resolve (example_ns (Named ENS) ''.eth'') (prepareDomain ''Nobody.eth'') = Inr Null
   \<and> resolve (Object Map.empty) example_instance ''Nobody.eth'' = Inr (Object Map.empty)
   \<and> getNamingMethod example_instance ''brad.crypto'' = None
   \<and> resolve (Object Map.empty) example_instance ''brad.crypto'' =
       Inl (ResolutionError UnsupportedDomain ''brad.crypto'')"
proof -
  note t1 = resolve_bundle_or_unclaimed [of example_instance "'' BRAD.ETH ''" "Object Map.empty"]
  note t2 = resolve_bundle_or_unclaimed [of example_instance "''Nobody.eth''" "Object Map.empty"]
  note t3 = resolve_bundle_or_unclaimed [of example_instance "''brad.crypto''" "Object Map.empty"]
  have r1: "resolve (Object Map.empty) example_instance '' BRAD.ETH '' =
       Inr (Object [''owner'' \<mapsto> String ''0x1''])"
    using t1 by (simp add: example_getNamingMethod example_ns_resolve prepareDomain_examples)
  have r2: "resolve (Object Map.empty) example_instance ''Nobody.eth'' = Inr (Object Map.empty)"
    using t2 by (simp add: example_getNamingMethod example_ns_resolve prepareDomain_examples)
  have r3: "resolve (Object Map.empty) example_instance ''brad.crypto'' =
       Inl (ResolutionError UnsupportedDomain ''brad.crypto'')"
    using t3 by (simp add: example_getNamingMethod prepareDomain_examples)
  show ?thesis
    using r1 r2 r3
    by (simp add: example_getNamingMethod example_ns_resolve prepareDomain_examples)
qed

section \<open>Hash validation\<close>

lemma namehash_eq:
  "namehash r d =
     (case getNamingMethod r d of
        None \<Rightarrow> Inl (ResolutionError UnsupportedDomain (prepareDomain d))
      | Some m \<Rightarrow> Inr (ns_namehash m (prepareDomain d)))"
  by (simp add: namehash_def getNamingMethodOrThrow_eq split: option.splits)

lemma namehash_prepared: "namehash r (prepareDomain d) = namehash r d"
  by (simp add: namehash_eq getNamingMethod_prepared prepareDomain_idem split: option.splits)

text \<open>
  Claim C8. For every domain supported by a configured backend, \<open>namehash\<close> returns
  a hash \<open>h\<close>, and for every string \<open>h'\<close> the call \<open>isValidHash\<close> returns
  whether \<open>h\<close> and \<open>h'\<close> are the same string, character by character: true
  for \<open>h\<close> itself, false for every other string.
\<close>

theorem isValidHash_iff_namehash:
  assumes "isSupportedDomain r d"
  shows "\<exists>h. namehash r d = Inr h
           \<and> isValidHash r d h = Inr True
           \<and> (\<forall>h'. isValidHash r d h' = Inr (h = h'))
           \<and> (\<forall>h'. h' \<noteq> h \<longrightarrow> isValidHash r d h' = Inr False)"
proof -
  from assms obtain m where m: "getNamingMethod r d = Some m"
    by (auto simp: isSupportedDomain_def getNamingMethod_prepared split: option.splits)
  then have n: "namehash r d = Inr (ns_namehash m (prepareDomain d))"
    by (simp add: namehash_eq)
  have "isValidHash r d h' = Inr (ns_namehash m (prepareDomain d) = h')" for h'
    by (simp add: isValidHash_def namehash_prepared n)
  with n show ?thesis
    by auto
qed

lemma example_supported: "isSupportedDomain example_instance '' BRAD.ETH ''"
  by (simp add: isSupportedDomain_def getNamingMethod_prepared example_getNamingMethod)

lemma example_namehash: "namehash example_instance '' BRAD.ETH '' = Inr ''0xbrad.eth''"
  by (simp add: namehash_eq example_getNamingMethod prepareDomain_examples example_ns_sel)

theorem isValidHash_iff_namehash_witness:
  "isSupportedDomain example_instance '' BRAD.ETH ''
   \<and> namehash example_instance '' BRAD.ETH '' = Inr ''0xbrad.eth''
   \<and> isValidHash example_instance '' BRAD.ETH '' ''0xbrad.eth'' = Inr True
   \<and> isValidHash example_instance '' BRAD.ETH '' ''0xBRAD.ETH'' = Inr False"
  using isValidHash_iff_namehash [OF example_supported] example_supported
  by (auto simp: example_namehash)

section \<open>Canonicalization at the entry points\<close>

lemma public_operations_canonicalize:
  "resolve u r (prepareDomain d) = resolve u r d"
  "address r (prepareDomain d) t = address r d t"
  "addressOrThrow r (prepareDomain d) t = addressOrThrow r d t"
  "chatId r (prepareDomain d) = chatId r d"
  "chatPk r (prepareDomain d) = chatPk r d"
  "ipfsHash r (prepareDomain d) = ipfsHash r d"
  "httpUrl r (prepareDomain d) = httpUrl r d"
  "email r (prepareDomain d) = email r d"
  "resolver r (prepareDomain d) = resolver r d"
  "owner r (prepareDomain d) = owner r d"
  "record_of r (prepareDomain d) k = record_of r d k"
  "namehash r (prepareDomain d) = namehash r d"
  "isValidHash r (prepareDomain d) h = isValidHash r d h"
  "isSupportedDomain r (prepareDomain d) = isSupportedDomain r d"
  "isSupportedDomainInNetwork r (prepareDomain d) = isSupportedDomainInNetwork r d"
  "serviceName r (prepareDomain d) = serviceName r d"
  "getAllKeys r (prepareDomain d) = getAllKeys r d"
  by (simp_all add: resolve_def address_def addressOrThrow_def chatId_def chatPk_def
      ipfsHash_def httpUrl_def email_def resolver_def owner_def record_of_def namehash_def
      isValidHash_def isSupportedDomain_def isSupportedDomainInNetwork_def serviceName_def
      getAllKeys_def prepareDomain_idem)

lemma ipfsRedirect_eq:
  "ipfsRedirect r d =
     (case getNamingMethod r d of
        None \<Rightarrow> Inl (ResolutionError UnsupportedDomain (prepareDomain d))
      | Some method \<Rightarrow> ns_record method d ''ipfs.redirect_domain.value'')"
  by (simp add: ipfsRedirect_def getNamingMethodOrThrow_def getNamingMethod_prepared
      split: option.splits)

lemma record_of_eq:
  "record_of r d k =
     (case getNamingMethod r d of
        None \<Rightarrow> Inl (ResolutionError UnsupportedDomain (prepareDomain d))
      | Some method \<Rightarrow> ns_record method (prepareDomain d) k)"
  by (simp add: record_of_def getNamingMethodOrThrow_eq split: option.splits)

lemma example_getNamingMethod_upper:
  "getNamingMethod example_instance ''BRAD.ETH'' = Some (example_ns (Named ENS) ''.eth'')"
  "getNamingMethod example_instance ''brad.eth'' = Some (example_ns (Named ENS) ''.eth'')"
  by (simp_all add: getNamingMethod_def getResolutionMethods_def example_instance_def
      example_ns_sel prepareDomain_examples)

text \<open>
  Claim C4. Every public operation that takes a domain canonicalizes it before selection
  and before the backend sees it (\<open>public_operations_canonicalize\<close> above), except
  \<open>ipfsRedirect\<close>: it selects by the canonical form and hands the backend the domain
  as written. On the example instance the upper-case spelling of a known domain is
  reported as having no record by \<open>ipfsRedirect\<close>, while \<open>ipfsRedirect\<close> on the
  canonical spelling and \<open>record\<close> on the upper-case spelling both return the
  record.
\<close>

theorem ipfsRedirect_forwards_raw_domain:
  "ipfsRedirect example_instance ''BRAD.ETH'' = Inl (ResolutionError RecordNotFound ''BRAD.ETH'')
   \<and> ipfsRedirect example_instance (prepareDomain ''BRAD.ETH'') = Inr ''example.com''
   \<and> record_of example_instance ''BRAD.ETH'' ''ipfs.redirect_domain.value'' = Inr ''example.com''"
proof -
  have 1: "ipfsRedirect example_instance ''BRAD.ETH'' =
      Inl (ResolutionError RecordNotFound ''BRAD.ETH'')"
    by (simp add: ipfsRedirect_eq example_getNamingMethod_upper example_ns_sel)
  have 2: "ipfsRedirect example_instance (prepareDomain ''BRAD.ETH'') = Inr ''example.com''"
    by (simp add: ipfsRedirect_eq prepareDomain_examples example_getNamingMethod_upper
        example_ns_sel)
  have 3: "record_of example_instance ''BRAD.ETH'' ''ipfs.redirect_domain.value'' =
      Inr ''example.com''"
    by (simp add: record_of_eq prepareDomain_examples example_getNamingMethod_upper
        example_ns_sel)
  from 1 2 3 show ?thesis by simp
qed

end
